theory Spec2Isabelle
  imports Complex_Main "HOL-Library.Sublist"
begin

section \<open>Spring-mass simulator: the trajectory generator and its callers\<close>

text \<open>
  The embedding follows \<^verbatim>\<open>src/frontend/src/components/points.js\<close> (functions
  \<^verbatim>\<open>simulateSystem\<close> and \<^verbatim>\<open>ejecutarSimulacion\<close>) and the animation component
  \<^verbatim>\<open>SpringMassSimulation\<close>.

  JavaScript numbers are modelled as mathematical reals: \<^verbatim>\<open>Math.sqrt\<close>, \<^verbatim>\<open>Math.cos\<close>,
  \<^verbatim>\<open>Math.sin\<close>, \<^verbatim>\<open>Math.exp\<close> are \<open>sqrt\<close>, \<open>cos\<close>, \<open>sin\<close>, \<open>exp\<close>, and rounding is not
  modelled. The only non-finite values that the code can produce from finite inputs
  without dividing by zero are the results of \<^verbatim>\<open>Math.max()\<close> and \<^verbatim>\<open>Math.min()\<close> on an
  empty argument list; they are kept in the type \<open>jsnum\<close>. Division by zero is total in
  HOL (\<open>x / 0 = 0\<close>) and not in JavaScript, so every theorem about a quotient is stated
  for validated parameters, where the divisors are shown to be non-zero.
\<close>

subsection \<open>Data model\<close>

record parametros_t =
  masa :: real
  constante_resorte :: real
  constante_amortiguamiento :: real
  fuerza :: string
  tipo_ecuacion :: string

record control_t =
  step_time :: real
  stop_time :: real
  valor_inicial :: real
  velocidad_inicial :: real

text \<open>The object \<^verbatim>\<open>{...parametros, frecuencia_natural: ..., ...}\<close> of the result.\<close>

record parametros_resultado = parametros_t +
  frecuencia_natural :: real
  coeficiente_amortiguamiento :: real
  tipo_amortiguamiento :: string
  beta :: real
  omega_0 :: real

datatype jsnum = Num real | PosInfinity | NegInfinity | NaN

record estadisticas_t =
  posicion_maxima :: jsnum
  posicion_minima :: jsnum
  amplitud :: jsnum
  velocidad_maxima :: jsnum
  velocidad_minima :: jsnum
  aceleracion_maxima :: jsnum
  aceleracion_minima :: jsnum

record resultados_t =
  tiempo :: "real list"
  posicion :: "real list"
  velocidad :: "real list"
  aceleracion :: "real list"
  parametros :: parametros_resultado
  estadisticas :: estadisticas_t

text \<open>The four arrays that the loop of \<^verbatim>\<open>simulateSystem\<close> pushes to.\<close>

record puntos =
  timePoints :: "real list"
  positionPoints :: "real list"
  velocityPoints :: "real list"
  accelerationPoints :: "real list"

subsection \<open>Arithmetic on the non-finite values\<close>

fun js_neg :: "jsnum \<Rightarrow> jsnum" where
  "js_neg (Num a) = Num (- a)"
| "js_neg PosInfinity = NegInfinity"
| "js_neg NegInfinity = PosInfinity"
| "js_neg NaN = NaN"

fun js_add :: "jsnum \<Rightarrow> jsnum \<Rightarrow> jsnum" where
  "js_add (Num a) (Num b) = Num (a + b)"
| "js_add NaN _ = NaN"
| "js_add _ NaN = NaN"
| "js_add PosInfinity NegInfinity = NaN"
| "js_add NegInfinity PosInfinity = NaN"
| "js_add PosInfinity _ = PosInfinity"
| "js_add _ PosInfinity = PosInfinity"
| "js_add NegInfinity _ = NegInfinity"
| "js_add _ NegInfinity = NegInfinity"

definition js_sub :: "jsnum \<Rightarrow> jsnum \<Rightarrow> jsnum" where
  "js_sub a b = js_add a (js_neg b)"



text \<open>\<^verbatim>\<open>Math.max(...xs)\<close> and \<^verbatim>\<open>Math.min(...xs)\<close>: a linear scan, an infinity on no argument.\<close>

fun math_max :: "real list \<Rightarrow> jsnum" where
  "math_max [] = NegInfinity"
| "math_max (x # xs) = Num (fold max xs x)"

fun math_min :: "real list \<Rightarrow> jsnum" where
  "math_min [] = PosInfinity"
| "math_min (x # xs) = Num (fold min xs x)"

subsection \<open>Strings\<close>

text \<open>\<^verbatim>\<open>s.includes(sub)\<close>: \<open>sub\<close> occurs in \<open>s\<close> as a contiguous substring.\<close>

fun includes_str :: "string \<Rightarrow> string \<Rightarrow> bool" where
  "includes_str [] sub = (sub = [])"
| "includes_str (x # xs) sub = (prefix sub (x # xs) \<or> includes_str xs sub)"

text \<open>
  The three regime names. The second letter group of the critical one holds an accented
  i, the single code unit 0xED of the JavaScript string.
\<close>

definition subamortiguado :: string where
  "subamortiguado = ''subamortiguado''"

definition critico :: string where
  "critico = ''cr'' @ [CHR 0xED] @ ''tico''"

definition sobreamortiguado :: string where
  "sobreamortiguado = ''sobreamortiguado''"

subsection \<open>The trajectory generator \<^verbatim>\<open>simulateSystem\<close>\<close>

definition dt :: real where
  "dt = 0.01"

text \<open>
  The guard of the first branch:
  \<^verbatim>\<open>tipo_ecuacion.includes('no_amortiguado') && !tipo_ecuacion.includes('forzado')\<close>.
\<close>

definition no_amortiguado_libre :: "parametros_t \<Rightarrow> bool" where
  "no_amortiguado_libre p \<longleftrightarrow>
     includes_str (tipo_ecuacion p) ''no_amortiguado'' \<and> \<not> includes_str (tipo_ecuacion p) ''forzado''"

text \<open>
  The body of the loop after \<^verbatim>\<open>timePoints.push(t)\<close>: position, velocity and
  acceleration at time \<open>t\<close>, with the operator precedence of the source.
\<close>

definition muestra :: "parametros_t \<Rightarrow> control_t \<Rightarrow> real \<Rightarrow> real \<Rightarrow> real \<Rightarrow> real \<times> real \<times> real" where
  "muestra p c omega zeta t =
     (if no_amortiguado_libre p then
        let position = valor_inicial c * cos (omega * t)
                       + (velocidad_inicial c / omega) * sin (omega * t);
            velocity = - valor_inicial c * omega * sin (omega * t)
                       + velocidad_inicial c * cos (omega * t);
            acceleration = - valor_inicial c * omega * omega * cos (omega * t)
                           - velocidad_inicial c * omega * sin (omega * t)
        in (position, velocity, acceleration)
      else if zeta < 1 then
        let omegaD = omega * sqrt (1 - zeta * zeta);
            A = valor_inicial c;
            B = (velocidad_inicial c + zeta * omega * A) / omegaD;
            envelope = exp (- zeta * omega * t);
            cosine = cos (omegaD * t);
            sine = sin (omegaD * t);
            position = envelope * (A * cosine + B * sine);
            velocity = envelope * ((- zeta * omega * A + omegaD * B) * cosine
                                   + (- omegaD * A - zeta * omega * B) * sine);
            acceleration = - constante_resorte p / masa p * position
                           - constante_amortiguamiento p / masa p * velocity
        in (position, velocity, acceleration)
      else
        let position = valor_inicial c * exp (- zeta * omega * t) * cos (omega * t);
            velocity = valor_inicial c * exp (- zeta * omega * t)
                       * (- zeta * omega * cos (omega * t) - omega * sin (omega * t));
            acceleration = - constante_resorte p / masa p * position
                           - constante_amortiguamiento p / masa p * velocity
        in (position, velocity, acceleration))"

definition push_muestra :: "real \<Rightarrow> real \<times> real \<times> real \<Rightarrow> puntos \<Rightarrow> puntos" where
  "push_muestra t s acc =
     (case s of (position, velocity, acceleration) \<Rightarrow>
        \<lparr>timePoints = timePoints acc @ [t],
         positionPoints = positionPoints acc @ [position],
         velocityPoints = velocityPoints acc @ [velocity],
         accelerationPoints = accelerationPoints acc @ [acceleration]\<rparr>)"

text \<open>The loop \<^verbatim>\<open>for (let i = 0; i <= steps; i++)\<close>, entered at index \<open>i\<close>.\<close>

function bucle :: "parametros_t \<Rightarrow> control_t \<Rightarrow> real \<Rightarrow> real \<Rightarrow> int \<Rightarrow> int \<Rightarrow> puntos \<Rightarrow> puntos" where
  "bucle p c omega zeta steps i acc =
     (if i \<le> steps then
        let t = step_time c + real_of_int i * dt
        in bucle p c omega zeta steps (i + 1) (push_muestra t (muestra p c omega zeta t) acc)
      else acc)"
  by pat_completeness auto
termination
  by (relation "measure (\<lambda>(p, c, omega, zeta, steps, i, acc). nat (steps + 1 - i))") auto

declare bucle.simps [simp del]

definition steps_of :: "control_t \<Rightarrow> int" where
  "steps_of c = \<lfloor>(stop_time c - step_time c) / dt\<rfloor>"

definition omega_of :: "parametros_t \<Rightarrow> real" where
  "omega_of p = sqrt (constante_resorte p / masa p)"

definition zeta_of :: "parametros_t \<Rightarrow> real" where
  "zeta_of p = constante_amortiguamiento p / (2 * sqrt (masa p * constante_resorte p))"

definition simulateSystem :: "parametros_t \<Rightarrow> control_t \<Rightarrow> resultados_t" where
  "simulateSystem p c =
     (let steps = steps_of c;
          omega = omega_of p;
          zeta = zeta_of p;
          pts = bucle p c omega zeta steps 0
                  \<lparr>timePoints = [], positionPoints = [], velocityPoints = [],
                   accelerationPoints = []\<rparr>
      in \<lparr>tiempo = timePoints pts,
          posicion = positionPoints pts,
          velocidad = velocityPoints pts,
          aceleracion = accelerationPoints pts,
          parametros = parametros_t.extend p
            \<lparr>frecuencia_natural = omega,
             coeficiente_amortiguamiento = zeta,
             tipo_amortiguamiento =
               (if zeta < 1 then subamortiguado
                else if zeta = 1 then critico else sobreamortiguado),
             beta = constante_amortiguamiento p / (2 * masa p),
             omega_0 = omega\<rparr>,
          estadisticas =
            \<lparr>posicion_maxima = math_max (positionPoints pts),
             posicion_minima = math_min (positionPoints pts),
             amplitud = js_sub (math_max (positionPoints pts)) (math_min (positionPoints pts)),
             velocidad_maxima = math_max (velocityPoints pts),
             velocidad_minima = math_min (velocityPoints pts),
             aceleracion_maxima = math_max (accelerationPoints pts),
             aceleracion_minima = math_min (accelerationPoints pts)\<rparr>\<rparr>)"


subsection \<open>The caller \<^verbatim>\<open>ejecutarSimulacion\<close>\<close>






subsection \<open>The animation component \<^verbatim>\<open>SpringMassSimulation\<close>\<close>

text \<open>
  \<open>currentFrame\<close> and \<open>animationSpeed\<close> are the component's own state; \<open>isPlaying\<close> is the
  parent's \<^verbatim>\<open>isAnimationPlaying\<close>, which \<^verbatim>\<open>onPlayPause\<close> negates and \<^verbatim>\<open>onReset\<close> clears.
\<close>

record anim_t =
  currentFrame :: real
  animationSpeed :: real
  isPlaying :: bool

text \<open>
  The updater of \<^verbatim>\<open>animate\<close>, for a trajectory of \<open>len\<close> samples
  (\<^verbatim>\<open>resultados.posicion.length\<close>).
\<close>

definition animate :: "nat \<Rightarrow> anim_t \<Rightarrow> anim_t" where
  "animate len s =
     (let nextFrame = currentFrame s + animationSpeed s
      in if real len \<le> nextFrame
         then s\<lparr>isPlaying := \<not> isPlaying s, currentFrame := real len - 1\<rparr>
         else s\<lparr>currentFrame := nextFrame\<rparr>)"

text \<open>
  What can happen to the component: a timer tick (the interval exists only while
  \<open>isPlaying\<close>), a choice in the speed selector, the play/pause button, the reset button.
\<close>

datatype evento = Tick | SetSpeed real | PlayPause | Reset

fun aplicar :: "nat \<Rightarrow> anim_t \<Rightarrow> evento \<Rightarrow> anim_t" where
  "aplicar len s Tick = (if isPlaying s then animate len s else s)"
| "aplicar len s (SetSpeed v) = s\<lparr>animationSpeed := v\<rparr>"
| "aplicar len s PlayPause = s\<lparr>isPlaying := \<not> isPlaying s\<rparr>"
| "aplicar len s Reset = s\<lparr>currentFrame := 0, isPlaying := False\<rparr>"

text \<open>The options of the speed selector.\<close>

definition velocidades :: "real list" where
  "velocidades = [0.25, 0.5, 1, 2, 4]"

fun evento_ok :: "evento \<Rightarrow> bool" where
  "evento_ok (SetSpeed v) = (v \<in> set velocidades)"
| "evento_ok _ = True"

text \<open>The same, with the selector restricted to the whole-number speeds.\<close>

fun evento_entero :: "evento \<Rightarrow> bool" where
  "evento_entero (SetSpeed v) = (v \<in> {1, 2, 4})"
| "evento_entero _ = True"

definition anim_inicial :: anim_t where
  "anim_inicial = \<lparr>currentFrame = 0, animationSpeed = 1, isPlaying = False\<rparr>"

definition ejecutar_eventos :: "nat \<Rightarrow> evento list \<Rightarrow> anim_t" where
  "ejecutar_eventos len evs = foldl (aplicar len) anim_inicial evs"

subsection \<open>Abbreviations used in the statements\<close>


subsection \<open>Example inputs\<close>



definition p_ej3 :: parametros_t where
  "p_ej3 = \<lparr>masa = 1, constante_resorte = 4, constante_amortiguamiento = 0.2,
            fuerza = ''0'', tipo_ecuacion = ''amortiguado''\<rparr>"


definition c_ej1 :: control_t where
  "c_ej1 = \<lparr>step_time = 0, stop_time = 10, valor_inicial = 1, velocidad_inicial = 0\<rparr>"




section \<open>The loop as a map over the sample indices\<close>

lemma bucle_map:
  "bucle p c omega zeta steps i acc =
     \<lparr>timePoints = timePoints acc @ map (\<lambda>j. step_time c + real_of_int j * dt) [i..steps],
      positionPoints = positionPoints acc
        @ map (\<lambda>j. fst (muestra p c omega zeta (step_time c + real_of_int j * dt))) [i..steps],
      velocityPoints = velocityPoints acc
        @ map (\<lambda>j. fst (snd (muestra p c omega zeta (step_time c + real_of_int j * dt)))) [i..steps],
      accelerationPoints = accelerationPoints acc
        @ map (\<lambda>j. snd (snd (muestra p c omega zeta (step_time c + real_of_int j * dt)))) [i..steps]\<rparr>"
proof (induction p c omega zeta steps i acc rule: bucle.induct)
  case (1 p c omega zeta steps i acc)
  show ?case
  proof (cases "i \<le> steps")
    case True
    then show ?thesis
      using "1.IH" [OF True refl]
      by (subst bucle.simps) (simp add: Let_def push_muestra_def upto_rec1 [of i steps] split: prod.splits)
  next
    case False
    then show ?thesis by (subst bucle.simps) simp
  qed
qed





section \<open>Sampling grid\<close>



section \<open>The three branches of the sample computation\<close>







text \<open>The velocity expressions are the time derivatives of the position expressions.\<close>

lemma deriv_libre:
  assumes "w \<noteq> 0"
  shows "((\<lambda>t. y0 * cos (w * t) + (v0 / w) * sin (w * t)) has_real_derivative
            - y0 * w * sin (w * t) + v0 * cos (w * t)) (at t)"
  using assms by (auto intro!: derivative_eq_intros simp: algebra_simps)



section \<open>Closed forms of the samples\<close>










section \<open>Reported parameters\<close>



section \<open>The forcing expression is inert\<close>

text \<open>
  Claim C6. Two runs of the generator that differ only in the forcing expression
  \<open>fuerza\<close> produce the same \<open>tiempo\<close>, \<open>posicion\<close>, \<open>velocidad\<close>, \<open>aceleracion\<close> and
  the same \<open>estadisticas\<close>. This holds for every input, validated or not.
\<close>

theorem C6_fuerza_inerte:
  "tiempo (simulateSystem (p\<lparr>fuerza := fa\<rparr>) c) = tiempo (simulateSystem (p\<lparr>fuerza := fb\<rparr>) c)
   \<and> posicion (simulateSystem (p\<lparr>fuerza := fa\<rparr>) c) = posicion (simulateSystem (p\<lparr>fuerza := fb\<rparr>) c)
   \<and> velocidad (simulateSystem (p\<lparr>fuerza := fa\<rparr>) c) = velocidad (simulateSystem (p\<lparr>fuerza := fb\<rparr>) c)
   \<and> aceleracion (simulateSystem (p\<lparr>fuerza := fa\<rparr>) c)
       = aceleracion (simulateSystem (p\<lparr>fuerza := fb\<rparr>) c)
   \<and> estadisticas (simulateSystem (p\<lparr>fuerza := fa\<rparr>) c)
       = estadisticas (simulateSystem (p\<lparr>fuerza := fb\<rparr>) c)"
proof -
  have m: "muestra (p\<lparr>fuerza := f\<rparr>) c omega zeta t = muestra p c omega zeta t"
    for f omega zeta t
    by (simp add: muestra_def no_amortiguado_libre_def)
  have oz: "omega_of (p\<lparr>fuerza := f\<rparr>) = omega_of p" "zeta_of (p\<lparr>fuerza := f\<rparr>) = zeta_of p" for f
    by (simp_all add: omega_of_def zeta_of_def)
  have b: "bucle (p\<lparr>fuerza := f\<rparr>) c omega zeta steps i acc = bucle p c omega zeta steps i acc"
    for f omega zeta steps i acc
    by (simp add: bucle_map m)
  show ?thesis
    by (simp add: simulateSystem_def Let_def b oz)
qed

theorem C6_witness:
  "posicion (simulateSystem (p_ej3\<lparr>fuerza := ''0''\<rparr>) c_ej1)
     = posicion (simulateSystem (p_ej3\<lparr>fuerza := ''sin(2*t)''\<rparr>) c_ej1)
   \<and> estadisticas (simulateSystem (p_ej3\<lparr>fuerza := ''0''\<rparr>) c_ej1)
     = estadisticas (simulateSystem (p_ej3\<lparr>fuerza := ''sin(2*t)''\<rparr>) c_ej1)"
  using C6_fuerza_inerte [where p = p_ej3 and c = c_ej1 and fa = "''0''" and fb = "''sin(2*t)''"]
  by blast

section \<open>Validation and the stored results\<close>







section \<open>Auto-scaling of the chart range\<close>











section \<open>The frame index of the animation\<close>

lemma animate_cota:
  assumes "0 < len" and "0 \<le> currentFrame s" and "currentFrame s < real len"
    and "0 < animationSpeed s"
  shows "0 \<le> currentFrame (animate len s)" and "currentFrame (animate len s) < real len"
    and "animationSpeed (animate len s) = animationSpeed s"
  using assms by (simp_all add: animate_def Let_def)

lemma aplicar_cota:
  assumes "0 < len" and "evento_ok e"
    and "0 \<le> currentFrame s \<and> currentFrame s < real len \<and> 0 < animationSpeed s"
  shows "0 \<le> currentFrame (aplicar len s e) \<and> currentFrame (aplicar len s e) < real len
       \<and> 0 < animationSpeed (aplicar len s e)"
proof (cases e)
  case Tick
  with assms animate_cota [of len s] show ?thesis by simp
next
  case (SetSpeed v)
  with assms show ?thesis by (auto simp add: velocidades_def)
next
  case PlayPause
  with assms show ?thesis by simp
next
  case Reset
  with assms show ?thesis by simp
qed

lemma foldl_aplicar_cota:
  assumes "0 < len" and "list_all evento_ok evs"
    and "0 \<le> currentFrame s \<and> currentFrame s < real len \<and> 0 < animationSpeed s"
  shows "0 \<le> currentFrame (foldl (aplicar len) s evs)
       \<and> currentFrame (foldl (aplicar len) s evs) < real len
       \<and> 0 < animationSpeed (foldl (aplicar len) s evs)"
  using assms(2,3)
proof (induction evs arbitrary: s)
  case Nil
  then show ?case by simp
next
  case (Cons e evs)
  from Cons.prems(1) have e: "evento_ok e" and evs: "list_all evento_ok evs" by simp_all
  from aplicar_cota [OF assms(1) e Cons.prems(2)] Cons.IH [OF evs] show ?case by simp
qed

lemma aplicar_entero:
  assumes "evento_entero e" and "currentFrame s \<in> \<int> \<and> animationSpeed s \<in> \<int>"
  shows "currentFrame (aplicar len s e) \<in> \<int> \<and> animationSpeed (aplicar len s e) \<in> \<int>"
proof (cases e)
  case Tick
  with assms show ?thesis by (simp add: animate_def Let_def)
next
  case (SetSpeed v)
  with assms show ?thesis by auto
next
  case PlayPause
  with assms show ?thesis by simp
next
  case Reset
  with assms show ?thesis by simp
qed

lemma foldl_aplicar_entero:
  assumes "list_all evento_entero evs"
    and "currentFrame s \<in> \<int> \<and> animationSpeed s \<in> \<int>"
  shows "currentFrame (foldl (aplicar len) s evs) \<in> \<int>
       \<and> animationSpeed (foldl (aplicar len) s evs) \<in> \<int>"
  using assms
proof (induction evs arbitrary: s)
  case Nil
  then show ?case by simp
next
  case (Cons e evs)
  from Cons.prems(1) have e: "evento_entero e" and evs: "list_all evento_entero evs" by simp_all
  from Cons.IH [OF evs aplicar_entero [OF e Cons.prems(2)]] show ?case by simp
qed

lemma entero_menor:
  assumes "x \<in> \<int>" and "x < real len"
  shows "x \<le> real len - 1"
proof -
  from assms(1) obtain n :: int where n: "x = of_int n" by (auto elim: Ints_cases)
  with assms(2) have "n < int len" by simp
  then have "n \<le> int len - 1" by simp
  then have "real_of_int n \<le> real_of_int (int len - 1)" by (simp only: of_int_le_iff)
  with n show ?thesis by simp
qed

text \<open>
  Claim C9, as amended. Whenever a tick finds the next frame index (current frame plus
  speed) at or beyond the number of samples, playback is paused and the frame index is
  set to \<open>length - 1\<close>. Starting from frame \<open>0\<close> with at least one sample, after any
  sequence of ticks, speed changes, play/pause and reset the frame index is at least
  \<open>0\<close> and strictly below \<open>length\<close>, so its integer part is at most \<open>length - 1\<close>; if
  only the whole-number speeds 1, 2 and 4 are used it never exceeds \<open>length - 1\<close>.
  The claim as written (the frame index never exceeds \<open>length - 1\<close>) fails at speed
  \<open>0.5\<close>: with three samples the index reaches \<open>2.5\<close>.
\<close>

theorem C9_animacion:
  assumes "0 < len" and "list_all evento_ok evs"
  shows "let s = ejecutar_eventos len evs
         in 0 \<le> currentFrame s \<and> currentFrame s < real len
          \<and> \<lfloor>currentFrame s\<rfloor> \<le> int len - 1
          \<and> (list_all evento_entero evs \<longrightarrow> currentFrame s \<le> real len - 1)
          \<and> (isPlaying s \<and> real len \<le> currentFrame s + animationSpeed s \<longrightarrow>
                aplicar len s Tick = s\<lparr>isPlaying := False, currentFrame := real len - 1\<rparr>)"
proof -
  define s where "s = ejecutar_eventos len evs"
  have init: "0 \<le> currentFrame anim_inicial \<and> currentFrame anim_inicial < real len
      \<and> 0 < animationSpeed anim_inicial"
    using assms(1) by (simp add: anim_inicial_def)
  from foldl_aplicar_cota [OF assms init]
  have b: "0 \<le> currentFrame s" "currentFrame s < real len"
    by (simp_all add: s_def ejecutar_eventos_def)
  from b(2) have "\<lfloor>currentFrame s\<rfloor> < int len" by (simp add: floor_less_iff)
  then have f: "\<lfloor>currentFrame s\<rfloor> \<le> int len - 1" by simp
  have ent: "currentFrame s \<le> real len - 1" if "list_all evento_entero evs"
  proof -
    have "currentFrame anim_inicial \<in> \<int> \<and> animationSpeed anim_inicial \<in> \<int>"
      by (simp add: anim_inicial_def)
    from foldl_aplicar_entero [OF that this, of len] have "currentFrame s \<in> \<int>"
      by (simp add: s_def ejecutar_eventos_def)
    then show ?thesis using b(2) by (rule entero_menor)
  qed
  have stop: "aplicar len s Tick = s\<lparr>isPlaying := False, currentFrame := real len - 1\<rparr>"
    if "isPlaying s" and "real len \<le> currentFrame s + animationSpeed s"
    using that by (simp add: animate_def Let_def)
  show ?thesis
    unfolding Let_def s_def [symmetric] using b f ent stop by blast
qed

theorem C9_witness:
  "(0::nat) < 3 \<and> list_all evento_ok [PlayPause, SetSpeed 2, Tick]
   \<and> list_all evento_entero [PlayPause, SetSpeed 2, Tick]
   \<and> isPlaying (ejecutar_eventos 3 [PlayPause, SetSpeed 2, Tick])
   \<and> real (3::nat) \<le> currentFrame (ejecutar_eventos 3 [PlayPause, SetSpeed 2, Tick])
                       + animationSpeed (ejecutar_eventos 3 [PlayPause, SetSpeed 2, Tick])
   \<and> currentFrame (ejecutar_eventos 3 [PlayPause, SetSpeed 2, Tick]) \<le> real (3::nat) - 1
   \<and> aplicar 3 (ejecutar_eventos 3 [PlayPause, SetSpeed 2, Tick]) Tick
       = \<lparr>currentFrame = 2, animationSpeed = 2, isPlaying = False\<rparr>"
proof -
  have l: "(0::nat) < 3" by simp
  have ok: "list_all evento_ok [PlayPause, SetSpeed 2, Tick]"
    by (simp add: velocidades_def)
  have ent: "list_all evento_entero [PlayPause, SetSpeed 2, Tick]"
    by simp
  have r: "ejecutar_eventos 3 [PlayPause, SetSpeed 2, Tick]
      = \<lparr>currentFrame = 2, animationSpeed = 2, isPlaying = True\<rparr>"
    by (simp add: ejecutar_eventos_def anim_inicial_def animate_def Let_def)
  have pre: "isPlaying (ejecutar_eventos 3 [PlayPause, SetSpeed 2, Tick])"
    "real (3::nat) \<le> currentFrame (ejecutar_eventos 3 [PlayPause, SetSpeed 2, Tick])
                       + animationSpeed (ejecutar_eventos 3 [PlayPause, SetSpeed 2, Tick])"
    by (simp_all add: r)
  from C9_animacion [OF l ok] ent pre
  have "currentFrame (ejecutar_eventos 3 [PlayPause, SetSpeed 2, Tick]) \<le> real (3::nat) - 1
      \<and> aplicar 3 (ejecutar_eventos 3 [PlayPause, SetSpeed 2, Tick]) Tick
          = ejecutar_eventos 3 [PlayPause, SetSpeed 2, Tick]
              \<lparr>isPlaying := False, currentFrame := real (3::nat) - 1\<rparr>"
    unfolding Let_def by blast
  then have "currentFrame (ejecutar_eventos 3 [PlayPause, SetSpeed 2, Tick]) \<le> real (3::nat) - 1
      \<and> aplicar 3 (ejecutar_eventos 3 [PlayPause, SetSpeed 2, Tick]) Tick
          = \<lparr>currentFrame = 2, animationSpeed = 2, isPlaying = False\<rparr>"
    by (simp add: r)
  with l ok ent pre show ?thesis by blast
qed

theorem C9_counterexample:
  "list_all evento_ok [PlayPause, SetSpeed 0.5, Tick, Tick, Tick, Tick, Tick]
   \<and> currentFrame (ejecutar_eventos 3 [PlayPause, SetSpeed 0.5, Tick, Tick, Tick, Tick, Tick])
       = 2.5
   \<and> \<not> currentFrame (ejecutar_eventos 3 [PlayPause, SetSpeed 0.5, Tick, Tick, Tick, Tick, Tick])
         \<le> real (3::nat) - 1"
  by (simp add: ejecutar_eventos_def anim_inicial_def animate_def Let_def velocidades_def)

end
